theory Spec2Isabelle
  imports Complex_Main
begin

section \<open>Data model of \<open>src/index.js\<close>\<close>

text \<open>
  The program is one class, \<open>Localiser\<close>, whose instance fields are the parsed CLI
  options, the project configuration and the run statistics. What a run changes (the
  statistics, the files on disk, the lines logged, the requests sent) is the record
  \<open>world\<close>, passed through every operation; what it only consults (the translation
  service, the user at the prompt, Node's \<open>path\<close>, \<open>JSON\<close> and string functions, the
  success of directory creation and of writes) is the record \<open>env\<close>.
\<close>

subsection \<open>JSON values\<close>

datatype json =
    JNull
  | JBool bool
  | JNum rat
  | JStr string
  | JArr "json list"
  | JObj "(string \<times> json) list"

text \<open>
  \<open>Object.keys(v).length\<close> as JavaScript computes it on a parsed JSON value: \<open>None\<close>
  is the \<open>TypeError\<close> that \<open>Object.keys(null)\<close> throws; numbers and booleans have no own
  keys; a string has one key per character and an array one per element. The code only
  asks whether the number is positive.
\<close>

fun Object_keys_length :: "json \<Rightarrow> nat option" where
  "Object_keys_length JNull = None"
| "Object_keys_length (JBool b) = Some 0"
| "Object_keys_length (JNum x) = Some 0"
| "Object_keys_length (JStr s) = Some (length s)"
| "Object_keys_length (JArr xs) = Some (length xs)"
| "Object_keys_length (JObj kvs) = Some (length (remdups (map fst kvs)))"

subsection \<open>Configuration, options, statistics\<close>

text \<open>The configuration file: \<open>{ directory, sourceLanguage, languages[], namespaces[] }\<close>.\<close>

record project_config =
  directory :: string
  sourceLanguage :: string
  languages :: "string list"
  namespaces :: "string list"

text \<open>
  \<open>this.options\<close> after \<open>initializeCLI\<close>: \<open>language\<close> defaults to the empty string,
  \<open>namespace\<close> is \<open>undefined\<close> (\<open>None\<close>) unless \<open>-n\<close> is given, \<open>config\<close> is the path
  of the configuration file.
\<close>

record options =
  language :: string
  namespace :: "string list option"
  config :: string

text \<open>\<open>this.stats\<close>: two groups of three counters.\<close>

record counters =
  total :: nat
  completed :: nat
  failed :: nat

record stats =
  languages_stats :: counters
  namespaces_stats :: counters

subsection \<open>The mutable world and the environment\<close>

text \<open>
  A file on disk either holds a JSON document or something \<open>fs.readJson\<close> throws on
  (\<open>Unreadable\<close>: not JSON, a directory, no permission). An absent path is \<open>None\<close> in the
  \<open>files\<close> map, which is what \<open>fs.existsSync\<close> tests.
\<close>

datatype disk_file = Json json | Unreadable

text \<open>
  The errors that can escape a method of the class: the \<open>RangeError\<close> of
  \<open>String.prototype.repeat\<close> and a failure of \<open>fs.ensureDir\<close>.
\<close>

datatype js_error = RangeError | EnsureDirError

text \<open>
  The lines handed to \<open>this.log\<close>, as events; how \<open>log\<close> turns colour tags into
  escape codes is presentation and is not modelled.
\<close>

datatype log_line =
    ConfigLoadError string
  | ParseFailed string
  | TranslationError string string
  | Starting
  | SourceTarget string "string list"
  | InvalidNamespaces "string list"
  | AvailableNamespaces "string list"
  | Cancelled
  | Continuing
  | NamespacesLine "string list"
  | UnsupportedLanguage string
  | ProcessCompleted
  | UnhandledError js_error

text \<open>
  The state a run mutates: the statistics, the files on disk, the lines logged so far and
  the number of requests sent to the translation service so far.
\<close>

record world =
  stats :: stats
  files :: "string \<rightharpoonup> disk_file"
  console :: "log_line list"
  requests :: nat

text \<open>The six counters of a world, by the names the code reads them with.\<close>

abbreviation languages_total :: "world \<Rightarrow> nat" where
  "languages_total w \<equiv> total (languages_stats (stats w))"

abbreviation languages_completed :: "world \<Rightarrow> nat" where
  "languages_completed w \<equiv> completed (languages_stats (stats w))"

abbreviation languages_failed :: "world \<Rightarrow> nat" where
  "languages_failed w \<equiv> failed (languages_stats (stats w))"

abbreviation namespaces_total :: "world \<Rightarrow> nat" where
  "namespaces_total w \<equiv> total (namespaces_stats (stats w))"

abbreviation namespaces_completed :: "world \<Rightarrow> nat" where
  "namespaces_completed w \<equiv> completed (namespaces_stats (stats w))"

abbreviation namespaces_failed :: "world \<Rightarrow> nat" where
  "namespaces_failed w \<equiv> failed (namespaces_stats (stats w))"

text \<open>
  What the translation service answers to one \<open>chat.completions.create\<close> call: either
  the call (or reading \<open>response.choices[0].message.content\<close>) throws, with a message, or
  it yields the content string.
\<close>

datatype reply = RequestFailed string | Content string

text \<open>
  The collaborators of the class.
  \<^item> \<open>path_join\<close>, \<open>path_basename\<close>: Node's \<open>path.join\<close> and \<open>path.basename\<close>;
  \<^item> \<open>String_trim\<close>, \<open>String_toLowerCase\<close>: the string methods of the same names;
  \<^item> \<open>JSON_parse\<close>: \<open>JSON.parse\<close>, \<open>Inl\<close> carrying the message of the \<open>SyntaxError\<close>;
  \<^item> \<open>readConfig\<close>: \<open>fs.readJson\<close> on the configuration path, \<open>Inl\<close> carrying the
    error message;
  \<^item> \<open>ensureDir_ok\<close>: whether \<open>fs.ensureDir\<close> succeeds on a directory;
  \<^item> \<open>writeJson_ok\<close>: whether \<open>fs.writeJson\<close> succeeds on a path;
  \<^item> \<open>openai\<close>: the answer of the service to the request number \<open>n\<close> of the run, made
    for a source object and a target language (the prompt is a function of these two);
  \<^item> \<open>stdin_line\<close>: the line the user types at the confirmation prompt.
\<close>

record env =
  path_join :: "string \<Rightarrow> string \<Rightarrow> string"
  path_basename :: "string \<Rightarrow> string"
  String_trim :: "string \<Rightarrow> string"
  String_toLowerCase :: "string \<Rightarrow> string"
  JSON_parse :: "string \<Rightarrow> string + json"
  readConfig :: "string \<Rightarrow> string + project_config"
  ensureDir_ok :: "string \<Rightarrow> bool"
  writeJson_ok :: "string \<Rightarrow> bool"
  openai :: "nat \<Rightarrow> json \<Rightarrow> string \<Rightarrow> reply"
  stdin_line :: string

text \<open>
  How a run ends: \<open>run\<close> resolves, \<open>process.exit(code)\<close> is called, or an error
  escapes. \<open>world_of\<close> is the world at that moment.
\<close>

datatype outcome =
    is_Finished: Finished (world_of: world)
  | Exit (exit_code: nat) (world_of: world)
  | Thrown (thrown: js_error) (world_of: world)

section \<open>The operations\<close>

text \<open>The constructor: all six counters are zero, nothing is logged, no request is sent.\<close>

definition Localiser :: "(string \<rightharpoonup> disk_file) \<Rightarrow> world" where
  "Localiser fs =
     \<lparr> stats = \<lparr> languages_stats = \<lparr> total = 0, completed = 0, failed = 0 \<rparr>,
                 namespaces_stats = \<lparr> total = 0, completed = 0, failed = 0 \<rparr> \<rparr>,
       files = fs, console = [], requests = 0 \<rparr>"

definition log_line :: "log_line \<Rightarrow> world \<Rightarrow> world" where
  "log_line l w = w\<lparr> console := console w @ [l] \<rparr>"

text \<open>The four increments and two assignments the code makes on \<open>this.stats\<close>.\<close>

definition languages_total_set :: "nat \<Rightarrow> world \<Rightarrow> world" where
  "languages_total_set n w =
     w\<lparr> stats := (stats w)\<lparr> languages_stats := (languages_stats (stats w))\<lparr> total := n \<rparr> \<rparr> \<rparr>"

definition namespaces_total_set :: "nat \<Rightarrow> world \<Rightarrow> world" where
  "namespaces_total_set n w =
     w\<lparr> stats := (stats w)\<lparr> namespaces_stats := (namespaces_stats (stats w))\<lparr> total := n \<rparr> \<rparr> \<rparr>"

definition languages_completed_incr :: "world \<Rightarrow> world" where
  "languages_completed_incr w =
     w\<lparr> stats := (stats w)\<lparr> languages_stats :=
       (languages_stats (stats w))\<lparr> completed := completed (languages_stats (stats w)) + 1 \<rparr> \<rparr> \<rparr>"

definition languages_failed_incr :: "world \<Rightarrow> world" where
  "languages_failed_incr w =
     w\<lparr> stats := (stats w)\<lparr> languages_stats :=
       (languages_stats (stats w))\<lparr> failed := failed (languages_stats (stats w)) + 1 \<rparr> \<rparr> \<rparr>"

definition namespaces_completed_incr :: "world \<Rightarrow> world" where
  "namespaces_completed_incr w =
     w\<lparr> stats := (stats w)\<lparr> namespaces_stats :=
       (namespaces_stats (stats w))\<lparr> completed := completed (namespaces_stats (stats w)) + 1 \<rparr> \<rparr> \<rparr>"

definition namespaces_failed_incr :: "world \<Rightarrow> world" where
  "namespaces_failed_incr w =
     w\<lparr> stats := (stats w)\<lparr> namespaces_stats :=
       (namespaces_stats (stats w))\<lparr> failed := failed (namespaces_stats (stats w)) + 1 \<rparr> \<rparr> \<rparr>"

subsection \<open>\<open>showCombinedProgress\<close>\<close>

text \<open>
  \<open>Math.round((current / total) * barLength)\<close> with \<open>barLength = 15\<close>, on two counters.
  \<open>0 / 0\<close> is \<open>NaN\<close> and \<open>c / 0\<close> is \<open>Infinity\<close> for \<open>c > 0\<close>; otherwise the value is
  \<open>15 c / t\<close> rounded half up (\<open>Math.round\<close> rounds \<open>7.5\<close> to \<open>8\<close>), computed here in
  exact arithmetic. The double-precision value can round differently only where
  \<open>15 c / t\<close> lies exactly on a half; of these, only \<open>c / t = 31 / 30\<close> decides whether a
  bar overflows, and there the double-precision product is \<open>15.500000000000002\<close>, which
  rounds to 16 as the exact value does.
\<close>

datatype jsnum = NaN | Infinity | Num nat

definition filledLength :: "nat \<Rightarrow> nat \<Rightarrow> jsnum" where
  "filledLength current tot =
     (if tot = 0 then (if current = 0 then NaN else Infinity)
      else Num ((30 * current + tot) div (2 * tot)))"

text \<open>
  The two \<open>repeat\<close> calls that draw one bar: \<open>repeat(filled)\<close> and
  \<open>repeat(barLength - filled)\<close>. \<open>repeat\<close> takes \<open>NaN\<close> as 0 and throws a \<open>RangeError\<close>
  on an infinite or negative count. The result is the number of filled and of empty cells.
\<close>

fun bar :: "jsnum \<Rightarrow> js_error + nat \<times> nat" where
  "bar NaN = Inr (0, 0)"
| "bar Infinity = Inl RangeError"
| "bar (Num filled) = (if filled \<le> 15 then Inr (filled, 15 - filled) else Inl RangeError)"

text \<open>
  \<open>showCombinedProgress\<close> writes one line to the terminal; the model keeps what matters to
  the control flow: \<open>Some e\<close> when drawing a bar throws \<open>e\<close>, \<open>None\<close> when the line is
  written.
\<close>

definition showCombinedProgress :: "world \<Rightarrow> js_error option" where
  "showCombinedProgress w =
     (let langCurrent = completed (languages_stats (stats w));
          langTotal = total (languages_stats (stats w));
          nsCurrent = completed (namespaces_stats (stats w));
          nsTotal = total (namespaces_stats (stats w))
      in case bar (filledLength langCurrent langTotal) of
           Inl e \<Rightarrow> Some e
         | Inr langBar \<Rightarrow>
             (case bar (filledLength nsCurrent nsTotal) of
                Inl e \<Rightarrow> Some e
              | Inr nsBar \<Rightarrow> None))"

subsection \<open>\<open>translateJson\<close>\<close>

text \<open>
  One request; the content is trimmed and parsed. Both \<open>catch\<close> blocks log a line and
  fall through to \<open>return {}\<close>. Nothing is rethrown, so the result has no error branch.
\<close>

definition translateJson :: "env \<Rightarrow> world \<Rightarrow> json \<Rightarrow> string \<Rightarrow> world \<times> json" where
  "translateJson e w jsonObject targetLang =
     (let w1 = w\<lparr> requests := requests w + 1 \<rparr>
      in case openai e (requests w) jsonObject targetLang of
           RequestFailed msg \<Rightarrow> (log_line (TranslationError targetLang msg) w1, JObj [])
         | Content c \<Rightarrow>
             (case JSON_parse e (String_trim e c) of
                Inl msg \<Rightarrow> (log_line (ParseFailed msg) w1, JObj [])
              | Inr translatedJson \<Rightarrow> (w1, translatedJson)))"

subsection \<open>\<open>getFilePath\<close>, \<open>promptUser\<close>, \<open>validateNamespaces\<close>\<close>

definition endsWith :: "string \<Rightarrow> string \<Rightarrow> bool" where
  "endsWith s t = (length t \<le> length s \<and> drop (length s - length t) s = t)"

definition getFilePath :: "env \<Rightarrow> string \<Rightarrow> string \<Rightarrow> string" where
  "getFilePath e dir ns =
     (let filePath = path_join e dir ns
      in if endsWith filePath ''.json'' then filePath else filePath @ ''.json'')"

definition promptUser :: "env \<Rightarrow> string" where
  "promptUser e = String_toLowerCase e (String_trim e (stdin_line e))"

record validation =
  valid :: "string list"
  errors :: "string list"

fun validateNamespaces_loop ::
  "project_config \<Rightarrow> string list \<Rightarrow> string list \<Rightarrow> string list \<Rightarrow> validation" where
  "validateNamespaces_loop cfg [] validNamespaces invalidNamespaces =
     \<lparr> valid = validNamespaces, errors = invalidNamespaces \<rparr>"
| "validateNamespaces_loop cfg (ns # rest) validNamespaces invalidNamespaces =
     (if ns \<in> set (namespaces cfg)
      then validateNamespaces_loop cfg rest (validNamespaces @ [ns]) invalidNamespaces
      else validateNamespaces_loop cfg rest validNamespaces (invalidNamespaces @ [ns]))"

definition validateNamespaces :: "project_config \<Rightarrow> string list option \<Rightarrow> validation" where
  "validateNamespaces cfg inputNamespaces =
     (case inputNamespaces of
        None \<Rightarrow> \<lparr> valid = namespaces cfg, errors = [] \<rparr>
      | Some [] \<Rightarrow> \<lparr> valid = namespaces cfg, errors = [] \<rparr>
      | Some (n # ns) \<Rightarrow> validateNamespaces_loop cfg (n # ns) [] [])"

subsection \<open>\<open>processNamespaceFile\<close>\<close>

text \<open>
  Returns at once when the source file does not exist. Inside the \<open>try\<close>: read the source,
  translate, and write only when the result has at least one key. Every error in the \<open>try\<close>
  (an unreadable source, \<open>Object.keys(null)\<close>, a failed write) ends in \<open>return false\<close>.
\<close>

definition processNamespaceFile ::
  "env \<Rightarrow> world \<Rightarrow> string \<Rightarrow> string \<Rightarrow> string \<Rightarrow> world \<times> bool" where
  "processNamespaceFile e w sourceLanguageDir targetLanguageDir file =
     (let sourceFilePath = getFilePath e sourceLanguageDir file;
          targetFilePath = getFilePath e targetLanguageDir file
      in case files w sourceFilePath of
           None \<Rightarrow> (w, False)
         | Some Unreadable \<Rightarrow> (w, False)
         | Some (Json sourceContent) \<Rightarrow>
             (case translateJson e w sourceContent (path_basename e targetLanguageDir) of
                (w1, translatedContent) \<Rightarrow>
                  (case Object_keys_length translatedContent of
                     None \<Rightarrow> (w1, False)
                   | Some n \<Rightarrow>
                       if n > 0 \<and> writeJson_ok e targetFilePath
                       then (w1\<lparr> files := (files w1)(targetFilePath \<mapsto> Json translatedContent) \<rparr>,
                             True)
                       else (w1, False))))"

subsection \<open>\<open>processLocale\<close>\<close>

text \<open>Lines 263 to 269: process one file and count it.\<close>

definition processLocale_step :: "env \<Rightarrow> world \<Rightarrow> string \<Rightarrow> string \<Rightarrow> string \<Rightarrow> world" where
  "processLocale_step e w sourceLanguageDir targetLanguageDir file =
     (case processNamespaceFile e w sourceLanguageDir targetLanguageDir file of
        (w1, success) \<Rightarrow>
          if success then namespaces_completed_incr w1 else namespaces_failed_incr w1)"

text \<open>The \<open>for\<close> loop over \<open>namespaceFiles\<close>: draw the progress line, then the step.\<close>

fun processLocale_loop ::
  "env \<Rightarrow> world \<Rightarrow> string \<Rightarrow> string \<Rightarrow> string list \<Rightarrow> js_error \<times> world + world" where
  "processLocale_loop e w sourceLanguageDir targetLanguageDir [] = Inr w"
| "processLocale_loop e w sourceLanguageDir targetLanguageDir (file # rest) =
     (case showCombinedProgress w of
        Some err \<Rightarrow> Inl (err, w)
      | None \<Rightarrow>
          processLocale_loop e (processLocale_step e w sourceLanguageDir targetLanguageDir file)
            sourceLanguageDir targetLanguageDir rest)"

definition processLocale ::
  "env \<Rightarrow> project_config \<Rightarrow> world \<Rightarrow> string \<Rightarrow> string \<Rightarrow> string list option
     \<Rightarrow> js_error \<times> world + world \<times> bool" where
  "processLocale e cfg w sourceLang targetLang nss =
     (let sourceLanguageDir = path_join e (directory cfg) sourceLang;
          targetLanguageDir = path_join e (directory cfg) targetLang
      in if \<not> ensureDir_ok e targetLanguageDir then Inl (EnsureDirError, w)
         else
           let validNamespaces =
                 (case nss of None \<Rightarrow> namespaces cfg | Some [] \<Rightarrow> namespaces cfg
                  | Some (n # ns) \<Rightarrow> n # ns);
               namespaceFiles = map (\<lambda>ns. ns @ ''.json'') validNamespaces
           in case processLocale_loop e w sourceLanguageDir targetLanguageDir namespaceFiles of
                Inl err \<Rightarrow> Inl err
              | Inr w1 \<Rightarrow>
                  Inr (w1, completed (namespaces_stats (stats w1))
                             = total (namespaces_stats (stats w1))))"

text \<open>
  The namespaces \<open>processLocale\<close> walks when it is given \<open>nss\<close>: the expression bound
  to \<open>validNamespaces\<close> in its body.
\<close>

abbreviation processed :: "project_config \<Rightarrow> string list option \<Rightarrow> string list" where
  "processed cfg nss \<equiv>
     (case nss of None \<Rightarrow> namespaces cfg | Some [] \<Rightarrow> namespaces cfg
      | Some (n # ns) \<Rightarrow> n # ns)"

subsection \<open>\<open>run\<close>\<close>

text \<open>The \<open>for\<close> loop over \<open>languagesToTranslate\<close>.\<close>

fun run_loop ::
  "env \<Rightarrow> project_config \<Rightarrow> options \<Rightarrow> world \<Rightarrow> string list \<Rightarrow> js_error \<times> world + world" where
  "run_loop e cfg opts w [] = Inr w"
| "run_loop e cfg opts w (lang # rest) =
     (if lang \<notin> set (languages cfg)
      then run_loop e cfg opts (languages_failed_incr (log_line (UnsupportedLanguage lang) w)) rest
      else
        case processLocale e cfg w (sourceLanguage cfg) lang (namespace opts) of
          Inl err \<Rightarrow> Inl err
        | Inr (w1, success) \<Rightarrow>
            (let w2 = (if success then languages_completed_incr w1 else languages_failed_incr w1)
             in case showCombinedProgress w2 of
                  Some err \<Rightarrow> Inl (err, w2)
                | None \<Rightarrow> run_loop e cfg opts w2 rest))"

definition languagesToTranslate :: "project_config \<Rightarrow> options \<Rightarrow> string list" where
  "languagesToTranslate cfg opts =
     (if language opts \<noteq> [] then [language opts]
      else filter (\<lambda>lang. lang \<noteq> sourceLanguage cfg) (languages cfg))"

definition run :: "env \<Rightarrow> options \<Rightarrow> world \<Rightarrow> outcome" where
  "run e opts w =
     (case readConfig e (config opts) of
        Inl msg \<Rightarrow> Exit 1 (log_line (ConfigLoadError msg) w)
      | Inr cfg \<Rightarrow>
          (let langs = languagesToTranslate cfg opts;
               v = validateNamespaces cfg (namespace opts);
               w1 = namespaces_total_set (length (valid v)) (languages_total_set (length langs) w);
               w2 = log_line (SourceTarget (sourceLanguage cfg) langs) (log_line Starting w1)
           in if errors v \<noteq> [] \<and> promptUser e \<noteq> ''y'' \<and> promptUser e \<noteq> ''yes''
              then Exit 0 (log_line Cancelled
                     (log_line (AvailableNamespaces (namespaces cfg))
                       (log_line (InvalidNamespaces (errors v)) w2)))
              else
                let w3 = (if errors v \<noteq> []
                          then log_line Continuing
                                 (log_line (AvailableNamespaces (namespaces cfg))
                                   (log_line (InvalidNamespaces (errors v)) w2))
                          else w2);
                    w4 = log_line (NamespacesLine (valid v)) w3
                in case run_loop e cfg opts w4 langs of
                     Inl (err, w5) \<Rightarrow> Thrown err w5
                   | Inr w5 \<Rightarrow> Finished (log_line ProcessCompleted w5)))"

text \<open>The last lines of the file: an error that escapes \<open>run\<close> is logged and the process
  exits with status 1.\<close>

definition main :: "env \<Rightarrow> options \<Rightarrow> (string \<rightharpoonup> disk_file) \<Rightarrow> outcome" where
  "main e opts fs =
     (case run e opts (Localiser fs) of
        Thrown err w \<Rightarrow> Exit 1 (log_line (UnhandledError err) w)
      | out \<Rightarrow> out)"

section \<open>A concrete project for closed examples\<close>

text \<open>
  An environment in which the examples below are evaluated. \<open>demo_join\<close> and
  \<open>demo_basename\<close> are \<open>path.join\<close> and \<open>path.basename\<close> on plain relative segments
  (nothing to normalise); \<open>demo_trim\<close> and \<open>demo_lower\<close> are \<open>trim\<close> and
  \<open>toLowerCase\<close> on ASCII text with blanks; \<open>demo_parse\<close> is \<open>JSON.parse\<close> on the
  texts that occur in the examples.
\<close>

definition demo_join :: "string \<Rightarrow> string \<Rightarrow> string" where
  "demo_join d n = d @ ''/'' @ n"

definition demo_basename :: "string \<Rightarrow> string" where
  "demo_basename p = rev (takeWhile (\<lambda>c. c \<noteq> CHR ''/'') (rev p))"

definition demo_trim :: "string \<Rightarrow> string" where
  "demo_trim s =
     rev (dropWhile (\<lambda>c. c = CHR '' '') (rev (dropWhile (\<lambda>c. c = CHR '' '') s)))"

definition demo_lower :: "string \<Rightarrow> string" where
  "demo_lower s =
     map (\<lambda>c. if 65 \<le> (of_char c :: nat) \<and> (of_char c :: nat) \<le> 90
              then char_of (of_char c + (32::nat)) else c) s"

definition demo_parse :: "string \<Rightarrow> string + json" where
  \<open>demo_parse c =
     (if c = ''{"greeting":"Bonjour"}'' then Inr (JObj [(''greeting'', JStr ''Bonjour'')])
      else if c = ''{}'' then Inr (JObj [])
      else Inl ''Unexpected token'')\<close>

text \<open>One namespace, source language \<open>en\<close>, target languages \<open>fr\<close> and \<open>de\<close>.\<close>

definition demo_config :: project_config where
  "demo_config =
     \<lparr> directory = ''locales'', sourceLanguage = ''en'',
       languages = [''en'', ''fr'', ''de''], namespaces = [''home''] \<rparr>"

text \<open>
  The service answers every request with a one-key object; every directory can be made
  and every file written; the user types \<open>yes\<close>.
\<close>

definition demo_env :: env where
  \<open>demo_env =
     \<lparr> path_join = demo_join, path_basename = demo_basename,
       String_trim = demo_trim, String_toLowerCase = demo_lower, JSON_parse = demo_parse,
       readConfig = (\<lambda>p. if p = ''localiser.json'' then Inr demo_config else Inl ''ENOENT''),
       ensureDir_ok = (\<lambda>d. True), writeJson_ok = (\<lambda>p. True),
       openai = (\<lambda>n obj lang. Content ''{"greeting":"Bonjour"}''),
       stdin_line = ''yes'' \<rparr>\<close>

text \<open>The disk holds the one source file \<open>locales/en/home.json\<close>.\<close>

definition demo_files :: "string \<rightharpoonup> disk_file" where
  "demo_files = [''locales/en/home.json'' \<mapsto> Json (JObj [(''greeting'', JStr ''Hello'')])]"

text \<open>No \<open>-l\<close>, no \<open>-n\<close>, the default configuration path.\<close>

definition demo_options :: options where
  "demo_options = \<lparr> language = [], namespace = None, config = ''localiser.json'' \<rparr>"

text \<open>
  A second project with two namespaces, \<open>home\<close> and \<open>common\<close>, both present on disk
  for the source language.
\<close>

definition demo_env2 :: env where
  "demo_env2 =
     demo_env\<lparr> readConfig :=
       (\<lambda>p. Inr (demo_config\<lparr> namespaces := [''home'', ''common''] \<rparr>)) \<rparr>"

definition demo_files2 :: "string \<rightharpoonup> disk_file" where
  "demo_files2 = demo_files(''locales/en/common.json'' \<mapsto> Json (JObj [(''ok'', JStr ''OK'')]))"

section \<open>Basic facts\<close>

lemmas stat_updates =
  log_line_def languages_total_set_def namespaces_total_set_def
  languages_completed_incr_def languages_failed_incr_def
  namespaces_completed_incr_def namespaces_failed_incr_def

lemma endsWith_append: "endsWith (p @ t) t"
  by (simp add: endsWith_def)

lemma translateJson_frame:
  "translateJson e w obj lang = (w1, j) \<Longrightarrow>
     files w1 = files w \<and> stats w1 = stats w \<and> requests w1 = requests w + 1"
  by (auto simp: translateJson_def Let_def log_line_def split: reply.splits sum.splits)

lemma translateJson_result:
  "requests v = requests w \<Longrightarrow>
     snd (translateJson e v obj lang) = snd (translateJson e w obj lang)"
  by (simp add: translateJson_def Let_def split: reply.splits sum.splits)

section \<open>The file path rule\<close>

text \<open>
  Claim C10. For every directory and name, \<open>getFilePath\<close> returns a path that ends in
  \<open>.json\<close>; when the joined path already ends in \<open>.json\<close> it is returned as it is, with
  no second extension; and the rule is idempotent: whenever the joined path is itself an
  output of \<open>getFilePath\<close>, that output is returned unchanged. This holds for every
  \<open>path.join\<close>.
\<close>

theorem getFilePath_json:
  "endsWith (getFilePath e dir ns) ''.json''
   \<and> (endsWith (path_join e dir ns) ''.json'' \<longrightarrow> getFilePath e dir ns = path_join e dir ns)
   \<and> (\<forall>dir2 ns2. path_join e dir2 ns2 = getFilePath e dir ns
         \<longrightarrow> getFilePath e dir2 ns2 = getFilePath e dir ns)"
proof -
  have ends: "endsWith (getFilePath e d n) ''.json''" for d n
    using endsWith_append [of "path_join e d n" "''.json''"]
    by (simp add: getFilePath_def Let_def)
  have same: "endsWith (path_join e d n) ''.json'' \<Longrightarrow> getFilePath e d n = path_join e d n"
    for d n
    by (simp add: getFilePath_def Let_def)
  have "getFilePath e dir2 ns2 = getFilePath e dir ns"
    if "path_join e dir2 ns2 = getFilePath e dir ns" for dir2 ns2
    using same [of dir2 ns2] ends [of dir ns] that by simp
  with ends same show ?thesis by blast
qed

theorem getFilePath_json_witness:
  "endsWith (path_join demo_env ''locales/en'' ''home.json'') ''.json''
   \<and> path_join demo_env ''locales/en'' ''home.json'' = getFilePath demo_env ''locales/en'' ''home''
   \<and> getFilePath demo_env ''locales/en'' ''home.json'' = ''locales/en/home.json''
   \<and> getFilePath demo_env ''locales/en'' ''home'' = ''locales/en/home.json''
   \<and> endsWith ''locales/en/home.json'' ''.json''"
  using getFilePath_json [of demo_env "''locales/en''" "''home''"]
  by (simp add: demo_env_def demo_join_def getFilePath_def endsWith_def)

lemmas demo_defs =
  demo_env_def demo_join_def demo_basename_def demo_trim_def demo_parse_def
  demo_config_def demo_files_def demo_options_def demo_env2_def demo_files2_def Localiser_def

lemmas file_defs =
  processLocale_step_def processNamespaceFile_def translateJson_def getFilePath_def
  endsWith_def showCombinedProgress_def filledLength_def Let_def

lemma validateNamespaces_loop_filter:
  "validateNamespaces_loop cfg xs vs is =
     \<lparr> valid = vs @ filter (\<lambda>n. n \<in> set (namespaces cfg)) xs,
       errors = is @ filter (\<lambda>n. n \<notin> set (namespaces cfg)) xs \<rparr>"
  by (induction xs arbitrary: vs "is") simp_all

lemma validateNamespaces_Some:
  "validateNamespaces cfg (Some xs) =
     (if xs = [] then \<lparr> valid = namespaces cfg, errors = [] \<rparr>
      else \<lparr> valid = filter (\<lambda>n. n \<in> set (namespaces cfg)) xs,
             errors = filter (\<lambda>n. n \<notin> set (namespaces cfg)) xs \<rparr>)"
  by (cases xs) (simp_all add: validateNamespaces_def validateNamespaces_loop_filter)

lemma validateNamespaces_None:
  "validateNamespaces cfg None = \<lparr> valid = namespaces cfg, errors = [] \<rparr>"
  by (simp add: validateNamespaces_def)

lemma processNamespaceFile_frame:
  "processNamespaceFile e w s t file = (w', b) \<Longrightarrow> stats w' = stats w"
  by (auto simp: processNamespaceFile_def Let_def
      split: option.splits disk_file.splits prod.splits if_splits
      dest: translateJson_frame)

section \<open>The translation client adapter\<close>

text \<open>
  Claim C6. For every input object and target language: if the request fails, or the
  content of the response does not parse as JSON, \<open>translateJson\<close> logs one error line,
  returns the empty mapping \<open>{}\<close> and returns normally (its result has no error branch);
  it has sent exactly one request, so nothing was retried, and it has touched neither
  the files nor the statistics.
\<close>

theorem translateJson_failure:
  assumes "openai e (requests w) obj lang = RequestFailed msg
           \<or> (\<exists>c. openai e (requests w) obj lang = Content c
                    \<and> JSON_parse e (String_trim e c) = Inl msg)"
  shows "\<exists>line. (line = TranslationError lang msg \<or> line = ParseFailed msg)
           \<and> translateJson e w obj lang =
               (w\<lparr> requests := requests w + 1, console := console w @ [line] \<rparr>, JObj [])"
  using assms by (auto simp: translateJson_def Let_def log_line_def)

theorem translateJson_failure_witness:
  "openai (demo_env\<lparr> openai := \<lambda>n obj lang. RequestFailed ''timeout'' \<rparr>)
       (requests (Localiser demo_files)) JNull ''fr'' = RequestFailed ''timeout''
   \<and> snd (translateJson (demo_env\<lparr> openai := \<lambda>n obj lang. RequestFailed ''timeout'' \<rparr>)
            (Localiser demo_files) JNull ''fr'') = JObj []
   \<and> requests (fst (translateJson (demo_env\<lparr> openai := \<lambda>n obj lang. RequestFailed ''timeout'' \<rparr>)
            (Localiser demo_files) JNull ''fr'')) = 1
   \<and> console (fst (translateJson (demo_env\<lparr> openai := \<lambda>n obj lang. RequestFailed ''timeout'' \<rparr>)
            (Localiser demo_files) JNull ''fr'')) = [TranslationError ''fr'' ''timeout'']"
  using translateJson_failure [of "demo_env\<lparr> openai := \<lambda>n obj lang. RequestFailed ''timeout'' \<rparr>"
      "Localiser demo_files" JNull "''fr''" "''timeout''"]
  by (simp add: demo_defs file_defs stat_updates)

section \<open>The file processor\<close>

text \<open>
  Claim C4. For every pair whose source file does not exist, \<open>processNamespaceFile\<close>
  returns failure and leaves the world as it was, so no target file is written; the
  counting step of \<open>processLocale\<close> then increments the namespaces \<open>failed\<close> counter and
  not the \<open>completed\<close> one; and in the loop, once the progress line is drawn, the pair
  is counted in this way before the loop goes on.
\<close>

theorem missing_source_fails:
  assumes "files w (getFilePath e sourceLanguageDir file) = None"
  shows "processNamespaceFile e w sourceLanguageDir targetLanguageDir file = (w, False)
     \<and> files (processLocale_step e w sourceLanguageDir targetLanguageDir file) = files w
     \<and> failed (namespaces_stats (stats (processLocale_step e w sourceLanguageDir targetLanguageDir file)))
         = failed (namespaces_stats (stats w)) + 1
     \<and> completed (namespaces_stats (stats (processLocale_step e w sourceLanguageDir targetLanguageDir file)))
         = completed (namespaces_stats (stats w))
     \<and> (showCombinedProgress w = None \<longrightarrow>
          processLocale_loop e w sourceLanguageDir targetLanguageDir (file # rest)
            = processLocale_loop e (namespaces_failed_incr w) sourceLanguageDir targetLanguageDir rest)"
proof -
  have p: "processNamespaceFile e w sourceLanguageDir targetLanguageDir file = (w, False)"
    using assms by (simp add: processNamespaceFile_def Let_def)
  then have s: "processLocale_step e w sourceLanguageDir targetLanguageDir file
                  = namespaces_failed_incr w"
    by (simp add: processLocale_step_def)
  show ?thesis
    using p s by (simp add: namespaces_failed_incr_def)
qed

theorem missing_source_fails_witness:
  "files (Localiser Map.empty) (getFilePath demo_env ''locales/en'' ''home.json'') = None
   \<and> showCombinedProgress (Localiser Map.empty) = None
   \<and> processNamespaceFile demo_env (Localiser Map.empty) ''locales/en'' ''locales/fr'' ''home.json''
       = (Localiser Map.empty, False)
   \<and> failed (namespaces_stats (stats
        (processLocale_step demo_env (Localiser Map.empty) ''locales/en'' ''locales/fr'' ''home.json'')))
       = 1"
  using missing_source_fails [of "Localiser Map.empty" demo_env "''locales/en''" "''home.json''"
      "''locales/fr''" "[]"]
  by (simp add: demo_defs file_defs stat_updates)

text \<open>
  Claim C5. For every pair whose source file is read and for which the adapter returns
  the empty mapping, \<open>processNamespaceFile\<close> returns false and the files are as before
  (nothing is written), and the counting step increments the namespaces \<open>failed\<close>
  counter and not the \<open>completed\<close> one.
\<close>

theorem empty_translation_fails:
  assumes "files w (getFilePath e sourceLanguageDir file) = Some (Json sourceContent)"
      and "translateJson e w sourceContent (path_basename e targetLanguageDir) = (w1, JObj [])"
  shows "processNamespaceFile e w sourceLanguageDir targetLanguageDir file = (w1, False)
     \<and> files w1 = files w
     \<and> files (processLocale_step e w sourceLanguageDir targetLanguageDir file) = files w
     \<and> failed (namespaces_stats (stats (processLocale_step e w sourceLanguageDir targetLanguageDir file)))
         = failed (namespaces_stats (stats w)) + 1
     \<and> completed (namespaces_stats (stats (processLocale_step e w sourceLanguageDir targetLanguageDir file)))
         = completed (namespaces_stats (stats w))"
proof -
  have p: "processNamespaceFile e w sourceLanguageDir targetLanguageDir file = (w1, False)"
    using assms by (simp add: processNamespaceFile_def Let_def)
  then have s: "processLocale_step e w sourceLanguageDir targetLanguageDir file
                  = namespaces_failed_incr w1"
    by (simp add: processLocale_step_def)
  show ?thesis
    using p s translateJson_frame [OF assms(2)] by (simp add: namespaces_failed_incr_def)
qed

theorem empty_translation_fails_witness:
  "files (Localiser demo_files) (getFilePath demo_env ''locales/en'' ''home.json'')
       = Some (Json (JObj [(''greeting'', JStr ''Hello'')]))
   \<and> snd (translateJson (demo_env\<lparr> openai := \<lambda>n obj lang. Content ''{}'' \<rparr>) (Localiser demo_files)
            (JObj [(''greeting'', JStr ''Hello'')]) ''fr'') = JObj []
   \<and> snd (processNamespaceFile (demo_env\<lparr> openai := \<lambda>n obj lang. Content ''{}'' \<rparr>)
            (Localiser demo_files) ''locales/en'' ''locales/fr'' ''home.json'') = False
   \<and> files (processLocale_step (demo_env\<lparr> openai := \<lambda>n obj lang. Content ''{}'' \<rparr>)
            (Localiser demo_files) ''locales/en'' ''locales/fr'' ''home.json'') ''locales/fr/home.json''
       = None
   \<and> failed (namespaces_stats (stats
        (processLocale_step (demo_env\<lparr> openai := \<lambda>n obj lang. Content ''{}'' \<rparr>)
            (Localiser demo_files) ''locales/en'' ''locales/fr'' ''home.json''))) = 1"
proof -
  let ?e = "demo_env\<lparr> openai := \<lambda>n obj lang. Content ''{}'' \<rparr>"
  let ?src = "JObj [(''greeting'', JStr ''Hello'')]"
  have path: "getFilePath ?e ''locales/en'' ''home.json'' = ''locales/en/home.json''"
    by (simp add: demo_env_def demo_join_def getFilePath_def endsWith_def)
  have src: "files (Localiser demo_files) (getFilePath ?e ''locales/en'' ''home.json'')
               = Some (Json ?src)"
    unfolding path by (simp add: Localiser_def demo_files_def)
  have base: "path_basename ?e ''locales/fr'' = ''fr''"
    by (simp add: demo_env_def demo_basename_def)
  obtain w1 where tr: "translateJson ?e (Localiser demo_files) ?src ''fr'' = (w1, JObj [])"
    by (simp add: translateJson_def Let_def demo_env_def demo_parse_def demo_trim_def)
  have tr': "translateJson ?e (Localiser demo_files) ?src (path_basename ?e ''locales/fr'')
               = (w1, JObj [])"
    unfolding base by (rule tr)
  have path': "getFilePath demo_env ''locales/en'' ''home.json'' = ''locales/en/home.json''"
    by (simp add: demo_env_def demo_join_def getFilePath_def endsWith_def)
  show ?thesis
    using empty_translation_fails [OF src tr'] tr path'
    by (simp add: Localiser_def demo_files_def)
qed

text \<open>
  Claim C8. Whenever \<open>processNamespaceFile\<close> writes (it writes exactly when it returns
  true; when it returns false the files are as before), the source file held a JSON
  document, the only file that changes is the target file, and its new content is the
  adapter's result for the source content. The result does not depend on what the target
  path held: in any world with the same source file (and the same position in the
  sequence of requests), whatever the other files hold, the call succeeds as well and
  leaves the same content at the target path.
\<close>

theorem write_is_full_overwrite:
  assumes "processNamespaceFile e w sourceLanguageDir targetLanguageDir file = (w', b)"
  shows "if b
         then \<exists>sourceContent.
                files w (getFilePath e sourceLanguageDir file) = Some (Json sourceContent)
              \<and> files w' = (files w)(getFilePath e targetLanguageDir file \<mapsto>
                   Json (snd (translateJson e w sourceContent (path_basename e targetLanguageDir))))
              \<and> (\<forall>v. files v (getFilePath e sourceLanguageDir file)
                         = files w (getFilePath e sourceLanguageDir file)
                       \<and> requests v = requests w \<longrightarrow>
                     (\<exists>v'. processNamespaceFile e v sourceLanguageDir targetLanguageDir file
                              = (v', True)
                          \<and> files v' (getFilePath e targetLanguageDir file)
                              = files w' (getFilePath e targetLanguageDir file)))
         else files w' = files w"
proof (cases b)
  case False
  with assms show ?thesis
    by (auto simp: processNamespaceFile_def Let_def
        split: option.splits disk_file.splits prod.splits if_splits
        dest: translateJson_frame)
next
  case True
  let ?src = "getFilePath e sourceLanguageDir file"
  let ?tgt = "getFilePath e targetLanguageDir file"
  let ?lang = "path_basename e targetLanguageDir"
  from assms True obtain sourceContent where src: "files w ?src = Some (Json sourceContent)"
    by (auto simp: processNamespaceFile_def Let_def split: option.splits disk_file.splits)
  obtain w1 j where tr: "translateJson e w sourceContent ?lang = (w1, j)"
    by (cases "translateJson e w sourceContent ?lang") auto
  from assms True src tr obtain n where
    keys: "Object_keys_length j = Some n" "0 < n" and wr: "writeJson_ok e ?tgt"
    and w': "w' = w1\<lparr> files := (files w1)(?tgt \<mapsto> Json j) \<rparr>"
    by (auto simp: processNamespaceFile_def Let_def split: option.splits if_splits)
  have content: "files w' = (files w)(?tgt \<mapsto> Json (snd (translateJson e w sourceContent ?lang)))"
    using w' tr translateJson_frame [OF tr] by simp
  have indep: "\<exists>v'. processNamespaceFile e v sourceLanguageDir targetLanguageDir file = (v', True)
                 \<and> files v' ?tgt = files w' ?tgt"
    if v: "files v ?src = files w ?src" "requests v = requests w" for v
  proof -
    obtain v1 j' where trv: "translateJson e v sourceContent ?lang = (v1, j')"
      by (cases "translateJson e v sourceContent ?lang") auto
    have "j' = j"
      using translateJson_result [OF v(2), of e sourceContent ?lang] tr trv by simp
    then have "processNamespaceFile e v sourceLanguageDir targetLanguageDir file
                 = (v1\<lparr> files := (files v1)(?tgt \<mapsto> Json j) \<rparr>, True)"
      using v(1) src trv keys wr by (simp add: processNamespaceFile_def Let_def)
    then show ?thesis using w' by simp
  qed
  from True src content indep show ?thesis by auto
qed

theorem write_is_full_overwrite_witness:
  "snd (processNamespaceFile demo_env (Localiser demo_files)
          ''locales/en'' ''locales/fr'' ''home.json'') = True
   \<and> files (fst (processNamespaceFile demo_env (Localiser demo_files)
          ''locales/en'' ''locales/fr'' ''home.json'')) ''locales/fr/home.json''
       = Some (Json (JObj [(''greeting'', JStr ''Bonjour'')]))
   \<and> files (Localiser (demo_files(''locales/fr/home.json'' \<mapsto> Json (JObj [(''stale'', JStr ''old'')]))))
          (getFilePath demo_env ''locales/en'' ''home.json'')
       = files (Localiser demo_files) (getFilePath demo_env ''locales/en'' ''home.json'')
   \<and> requests (Localiser (demo_files(''locales/fr/home.json'' \<mapsto> Json (JObj [(''stale'', JStr ''old'')]))))
       = requests (Localiser demo_files)
   \<and> files (fst (processNamespaceFile demo_env
          (Localiser (demo_files(''locales/fr/home.json'' \<mapsto> Json (JObj [(''stale'', JStr ''old'')]))))
          ''locales/en'' ''locales/fr'' ''home.json'')) ''locales/fr/home.json''
       = Some (Json (JObj [(''greeting'', JStr ''Bonjour'')]))"
  using write_is_full_overwrite [of demo_env "Localiser demo_files" "''locales/en''"
      "''locales/fr''" "''home.json''"
      "fst (processNamespaceFile demo_env (Localiser demo_files)
          ''locales/en'' ''locales/fr'' ''home.json'')" True]
  by (simp add: demo_defs file_defs stat_updates)

section \<open>The confirmation gate\<close>

text \<open>
  Claim C7. If a requested namespace is absent from the configuration and the user's
  answer, trimmed and in lower case, is neither \<open>y\<close> nor \<open>yes\<close> (the two answers the
  code takes for yes), then the run ends in \<open>process.exit(0)\<close>; at that point the files
  are the initial ones, no request has been sent, and none of the four \<open>completed\<close> and
  \<open>failed\<close> counters has moved. The same holds for the whole program started on a fresh
  \<open>Localiser\<close>, where these counters are then all zero.
\<close>

theorem decline_aborts_run:
  assumes "readConfig e (config opts) = Inr cfg"
      and "namespace opts = Some requested"
      and "n \<in> set requested" and "n \<notin> set (namespaces cfg)"
      and "promptUser e \<noteq> ''y''" and "promptUser e \<noteq> ''yes''"
  shows "(\<exists>w'. run e opts w = Exit 0 w'
            \<and> files w' = files w \<and> requests w' = requests w
            \<and> completed (languages_stats (stats w')) = completed (languages_stats (stats w))
            \<and> failed (languages_stats (stats w')) = failed (languages_stats (stats w))
            \<and> completed (namespaces_stats (stats w')) = completed (namespaces_stats (stats w))
            \<and> failed (namespaces_stats (stats w')) = failed (namespaces_stats (stats w)))
       \<and> (\<exists>w'. main e opts fs = Exit 0 w'
            \<and> files w' = fs \<and> requests w' = 0
            \<and> completed (languages_stats (stats w')) = 0
            \<and> failed (languages_stats (stats w')) = 0
            \<and> completed (namespaces_stats (stats w')) = 0
            \<and> failed (namespaces_stats (stats w')) = 0)"
proof -
  have ne: "requested \<noteq> []" using assms(3) by auto
  have "n \<in> set (filter (\<lambda>n. n \<notin> set (namespaces cfg)) requested)"
    using assms(3,4) by simp
  then have "filter (\<lambda>n. n \<notin> set (namespaces cfg)) requested \<noteq> []"
    by (metis empty_iff list.set(1))
  then have err: "errors (validateNamespaces cfg (namespace opts)) \<noteq> []"
    using ne by (simp add: assms(2) validateNamespaces_Some)
  have r: "run e opts u = Exit 0 (log_line Cancelled
             (log_line (AvailableNamespaces (namespaces cfg))
               (log_line (InvalidNamespaces (errors (validateNamespaces cfg (namespace opts))))
                 (log_line (SourceTarget (sourceLanguage cfg) (languagesToTranslate cfg opts))
                   (log_line Starting
                     (namespaces_total_set (length (valid (validateNamespaces cfg (namespace opts))))
                       (languages_total_set (length (languagesToTranslate cfg opts)) u)))))))" for u
    using assms(1,5,6) err by (simp add: run_def Let_def)
  show ?thesis
    by (simp add: r main_def stat_updates Localiser_def)
qed

theorem decline_aborts_run_witness:
  "readConfig (demo_env\<lparr> stdin_line := '' No '' \<rparr>)
       (config (demo_options\<lparr> namespace := Some [''home'', ''extra''] \<rparr>)) = Inr demo_config
   \<and> ''extra'' \<in> set [''home'', ''extra''] \<and> ''extra'' \<notin> set (namespaces demo_config)
   \<and> promptUser (demo_env\<lparr> stdin_line := '' No '' \<rparr>) = ''no''
   \<and> (\<exists>w'. main (demo_env\<lparr> stdin_line := '' No '' \<rparr>)
              (demo_options\<lparr> namespace := Some [''home'', ''extra''] \<rparr>) demo_files = Exit 0 w'
          \<and> files w' = demo_files
          \<and> failed (namespaces_stats (stats w')) = 0)"
proof -
  let ?e = "demo_env\<lparr> stdin_line := '' No '' \<rparr>"
  let ?o = "demo_options\<lparr> namespace := Some [''home'', ''extra''] \<rparr>"
  have cfg: "readConfig ?e (config ?o) = Inr demo_config"
    by (simp add: demo_defs)
  have ns: "namespace ?o = Some [''home'', ''extra'']"
    by simp
  have ans: "promptUser ?e = ''no''"
    unfolding promptUser_def demo_env_def by code_simp
  have mem: "''extra'' \<in> set [''home'', ''extra'']" "''extra'' \<notin> set (namespaces demo_config)"
    by (simp_all add: demo_config_def)
  have a1: "promptUser ?e \<noteq> ''y''" and a2: "promptUser ?e \<noteq> ''yes''"
    by (simp_all add: ans)
  from decline_aborts_run [OF cfg ns mem a1 a2, of "Localiser demo_files" demo_files]
  show ?thesis using cfg mem ans by auto
qed

section \<open>Counting\<close>

lemmas run_defs =
  main_def run_def languagesToTranslate_def validateNamespaces_def promptUser_def
  processLocale_def

text \<open>One counting step adds one to exactly one of the two namespace counters.\<close>

lemma processLocale_step_counts:
  "stats (processLocale_step e w s t f) = stats (namespaces_completed_incr w)
   \<or> stats (processLocale_step e w s t f) = stats (namespaces_failed_incr w)"
proof (cases "processNamespaceFile e w s t f")
  case (Pair w1 b)
  then show ?thesis
    using processNamespaceFile_frame [OF Pair]
    by (cases b) (simp_all add: processLocale_step_def stat_updates)
qed

lemma processLocale_step_sum:
  "languages_stats (stats (processLocale_step e w s t f)) = languages_stats (stats w)
   \<and> namespaces_total (processLocale_step e w s t f) = namespaces_total w
   \<and> namespaces_completed (processLocale_step e w s t f)
       + namespaces_failed (processLocale_step e w s t f)
       = namespaces_completed w + namespaces_failed w + 1"
  using processLocale_step_counts [of e w s t f]
  by (auto simp: stat_updates)

lemma processLocale_loop_counts:
  "processLocale_loop e w s t fs = Inr w' \<Longrightarrow>
     languages_stats (stats w') = languages_stats (stats w)
     \<and> namespaces_total w' = namespaces_total w
     \<and> namespaces_completed w' + namespaces_failed w'
         = namespaces_completed w + namespaces_failed w + length fs"
proof (induction fs arbitrary: w)
  case Nil
  then show ?case by simp
next
  case (Cons f rest)
  from Cons.prems have
    "processLocale_loop e (processLocale_step e w s t f) s t rest = Inr w'"
    by (simp split: option.splits)
  from Cons.IH [OF this] processLocale_step_sum [of e w s t f]
  show ?case by simp
qed

lemma processLocale_loop_thrown:
  "processLocale_loop e w s t fs = Inl (err, w') \<Longrightarrow>
     languages_stats (stats w') = languages_stats (stats w)
     \<and> namespaces_total w' = namespaces_total w"
proof (induction fs arbitrary: w)
  case Nil
  then show ?case by simp
next
  case (Cons f rest)
  show ?case
  proof (cases "showCombinedProgress w")
    case None
    with Cons.prems have
      "processLocale_loop e (processLocale_step e w s t f) s t rest = Inl (err, w')"
      by simp
    from Cons.IH [OF this] processLocale_step_sum [of e w s t f]
    show ?thesis by simp
  next
    case (Some a)
    with Cons.prems show ?thesis by simp
  qed
qed

lemma processLocale_counts:
  assumes "processLocale e cfg w src lang nss = Inr (w', b)"
  shows "languages_stats (stats w') = languages_stats (stats w)
     \<and> namespaces_total w' = namespaces_total w
     \<and> namespaces_completed w' + namespaces_failed w'
         = namespaces_completed w + namespaces_failed w + length (processed cfg nss)
     \<and> b = (namespaces_completed w' = namespaces_total w')"
proof -
  from assms have
    loop: "processLocale_loop e w (path_join e (directory cfg) src)
             (path_join e (directory cfg) lang)
             (map (\<lambda>ns. ns @ ''.json'') (processed cfg nss)) = Inr w'"
    and b: "b = (namespaces_completed w' = namespaces_total w')"
    by (auto simp: processLocale_def Let_def split: if_splits sum.splits)
  from processLocale_loop_counts [OF loop] b show ?thesis by simp
qed

lemma processLocale_thrown:
  assumes "processLocale e cfg w src lang nss = Inl (err, w')"
  shows "languages_stats (stats w') = languages_stats (stats w)
     \<and> namespaces_total w' = namespaces_total w"
proof (cases "ensureDir_ok e (path_join e (directory cfg) lang)")
  case False
  with assms show ?thesis by (simp add: processLocale_def Let_def)
next
  case True
  with assms have
    "processLocale_loop e w (path_join e (directory cfg) src)
       (path_join e (directory cfg) lang)
       (map (\<lambda>ns. ns @ ''.json'') (processed cfg nss)) = Inl (err, w')"
    by (auto simp: processLocale_def Let_def split: sum.splits)
  from processLocale_loop_thrown [OF this] show ?thesis .
qed

text \<open>
  The language loop, when it runs to its end: every language is counted once, as
  completed or as failed, and each configured language walks the processed namespaces
  once.
\<close>

lemma run_loop_counts:
  "run_loop e cfg opts w langs = Inr w' \<Longrightarrow>
     languages_total w' = languages_total w
     \<and> languages_completed w' + languages_failed w'
         = languages_completed w + languages_failed w + length langs
     \<and> namespaces_total w' = namespaces_total w
     \<and> namespaces_completed w' + namespaces_failed w'
         = namespaces_completed w + namespaces_failed w
           + length (filter (\<lambda>l. l \<in> set (languages cfg)) langs)
             * length (processed cfg (namespace opts))"
proof (induction langs arbitrary: w)
  case Nil
  then show ?case by simp
next
  case (Cons lang rest)
  show ?case
  proof (cases "lang \<in> set (languages cfg)")
    case False
    with Cons.prems have
      "run_loop e cfg opts (languages_failed_incr (log_line (UnsupportedLanguage lang) w)) rest
         = Inr w'"
      by simp
    from Cons.IH [OF this] False show ?thesis
      by (simp add: stat_updates)
  next
    case True
    with Cons.prems obtain w1 b where
      pl: "processLocale e cfg w (sourceLanguage cfg) lang (namespace opts) = Inr (w1, b)"
      by (auto split: sum.splits)
    define w2 where
      "w2 = (if b then languages_completed_incr w1 else languages_failed_incr w1)"
    from Cons.prems True pl have rest: "run_loop e cfg opts w2 rest = Inr w'"
      by (auto simp: w2_def Let_def split: option.splits if_splits)
    have w2: "languages_total w2 = languages_total w1"
      "languages_completed w2 + languages_failed w2
         = languages_completed w1 + languages_failed w1 + 1"
      "namespaces_stats (stats w2) = namespaces_stats (stats w1)"
      by (simp_all add: w2_def stat_updates)
    from Cons.IH [OF rest] processLocale_counts [OF pl] w2 True show ?thesis
      by simp
  qed
qed

lemma valid_is_processed:
  "errors (validateNamespaces cfg nss) = [] \<Longrightarrow>
     valid (validateNamespaces cfg nss) = processed cfg nss"
proof (cases nss)
  case None
  then show ?thesis by (simp add: validateNamespaces_None)
next
  case (Some xs)
  assume "errors (validateNamespaces cfg nss) = []"
  with Some have "xs \<noteq> [] \<Longrightarrow> filter (\<lambda>n. n \<notin> set (namespaces cfg)) xs = []"
    by (simp add: validateNamespaces_Some)
  then have "xs \<noteq> [] \<Longrightarrow> filter (\<lambda>n. n \<in> set (namespaces cfg)) xs = xs"
    by (simp add: filter_empty_conv filter_id_conv)
  with Some show ?thesis
    by (cases xs) (simp_all add: validateNamespaces_Some)
qed

text \<open>What \<open>run\<close> has done when it resolves.\<close>

lemma run_Finished:
  assumes "run e opts w = Finished w'" and "readConfig e (config opts) = Inr cfg"
  shows "\<exists>w4 w5. run_loop e cfg opts w4 (languagesToTranslate cfg opts) = Inr w5
           \<and> stats w' = stats w5
           \<and> languages_total w4 = length (languagesToTranslate cfg opts)
           \<and> namespaces_total w4 = length (valid (validateNamespaces cfg (namespace opts)))
           \<and> languages_completed w4 = languages_completed w
           \<and> languages_failed w4 = languages_failed w
           \<and> namespaces_completed w4 = namespaces_completed w
           \<and> namespaces_failed w4 = namespaces_failed w"
proof -
  define langs where "langs = languagesToTranslate cfg opts"
  define v where "v = validateNamespaces cfg (namespace opts)"
  define w2 where
    "w2 = log_line (SourceTarget (sourceLanguage cfg) langs) (log_line Starting
            (namespaces_total_set (length (valid v)) (languages_total_set (length langs) w)))"
  define w3 where
    "w3 = (if errors v \<noteq> []
           then log_line Continuing (log_line (AvailableNamespaces (namespaces cfg))
                  (log_line (InvalidNamespaces (errors v)) w2))
           else w2)"
  define w4 where "w4 = log_line (NamespacesLine (valid v)) w3"
  have unfold: "run e opts w =
      (if errors v \<noteq> [] \<and> promptUser e \<noteq> ''y'' \<and> promptUser e \<noteq> ''yes''
       then Exit 0 (log_line Cancelled (log_line (AvailableNamespaces (namespaces cfg))
              (log_line (InvalidNamespaces (errors v)) w2)))
       else case run_loop e cfg opts w4 langs of
              Inl (err, w5) \<Rightarrow> Thrown err w5
            | Inr w5 \<Rightarrow> Finished (log_line ProcessCompleted w5))"
    by (simp add: run_def Let_def assms(2) langs_def v_def w2_def w3_def w4_def)
  from assms(1) obtain w5 where
    loop: "run_loop e cfg opts w4 langs = Inr w5" and w': "w' = log_line ProcessCompleted w5"
    unfolding unfold by (auto split: if_splits sum.splits prod.splits)
  have "stats w' = stats w5"
    by (simp add: w' log_line_def)
  moreover have "stats w4 = stats (namespaces_total_set (length (valid v))
                    (languages_total_set (length langs) w))"
    by (simp add: w4_def w3_def w2_def log_line_def)
  ultimately show ?thesis
    using loop unfolding langs_def v_def
    by (intro exI [of _ w4] exI [of _ w5]) (simp add: stat_updates)
qed

section \<open>Counters at the end of a run\<close>

text \<open>
  Claim C1, refuted as stated. With \<open>-l xx\<close> for a language \<open>xx\<close> that is not configured,
  the run resolves with the language counted as failed and no namespace processed:
  the namespaces total is 1 while \<open>completed + failed\<close> is 0.
\<close>

theorem run_end_counters_counterexample:
  "is_Finished (main demo_env (demo_options\<lparr> language := ''xx'' \<rparr>) demo_files)
   \<and> namespaces_total (world_of (main demo_env (demo_options\<lparr> language := ''xx'' \<rparr>) demo_files)) = 1
   \<and> namespaces_completed (world_of (main demo_env (demo_options\<lparr> language := ''xx'' \<rparr>) demo_files))
      + namespaces_failed (world_of (main demo_env (demo_options\<lparr> language := ''xx'' \<rparr>) demo_files))
      = 0"
  by (simp add: run_defs demo_defs file_defs stat_updates)

text \<open>
  Claim C1, amended. At the end of every run that resolves (it was neither cancelled at
  the prompt nor ended by an error), the languages counters satisfy
  \<open>completed + failed = total\<close>; the namespaces counters satisfy it when there is exactly
  one target language, that language is configured, and no requested namespace is
  invalid.
\<close>

theorem run_end_counters:
  assumes "main e opts fs = Finished w" and "readConfig e (config opts) = Inr cfg"
  shows "languages_completed w + languages_failed w = languages_total w
     \<and> (languagesToTranslate cfg opts = [l] \<and> l \<in> set (languages cfg)
          \<and> errors (validateNamespaces cfg (namespace opts)) = []
        \<longrightarrow> namespaces_completed w + namespaces_failed w = namespaces_total w)"
proof -
  from assms(1) have r: "run e opts (Localiser fs) = Finished w"
    by (simp add: main_def split: outcome.splits)
  from run_Finished [OF r assms(2)] obtain w4 w5 where
    loop: "run_loop e cfg opts w4 (languagesToTranslate cfg opts) = Inr w5"
    and st: "stats w = stats w5"
    and init: "languages_total w4 = length (languagesToTranslate cfg opts)"
      "namespaces_total w4 = length (valid (validateNamespaces cfg (namespace opts)))"
      "languages_completed w4 = 0" "languages_failed w4 = 0"
      "namespaces_completed w4 = 0" "namespaces_failed w4 = 0"
    by (auto simp: Localiser_def)
  note c = run_loop_counts [OF loop]
  have langs: "languages_completed w + languages_failed w = languages_total w"
    using c init st by simp
  have "namespaces_completed w + namespaces_failed w = namespaces_total w"
    if "languagesToTranslate cfg opts = [l]" "l \<in> set (languages cfg)"
      "errors (validateNamespaces cfg (namespace opts)) = []"
    using c init st that valid_is_processed [OF that(3)] by simp
  with langs show ?thesis by blast
qed

theorem run_end_counters_witness:
  "main demo_env (demo_options\<lparr> language := ''fr'' \<rparr>) demo_files
     = Finished (world_of (main demo_env (demo_options\<lparr> language := ''fr'' \<rparr>) demo_files))
   \<and> readConfig demo_env (config (demo_options\<lparr> language := ''fr'' \<rparr>)) = Inr demo_config
   \<and> languagesToTranslate demo_config (demo_options\<lparr> language := ''fr'' \<rparr>) = [''fr'']
   \<and> ''fr'' \<in> set (languages demo_config)
   \<and> errors (validateNamespaces demo_config (namespace (demo_options\<lparr> language := ''fr'' \<rparr>))) = []
   \<and> namespaces_completed (world_of (main demo_env (demo_options\<lparr> language := ''fr'' \<rparr>) demo_files))
      + namespaces_failed (world_of (main demo_env (demo_options\<lparr> language := ''fr'' \<rparr>) demo_files))
      = namespaces_total (world_of (main demo_env (demo_options\<lparr> language := ''fr'' \<rparr>) demo_files))
   \<and> namespaces_total (world_of (main demo_env (demo_options\<lparr> language := ''fr'' \<rparr>) demo_files)) = 1
   \<and> languages_completed (world_of (main demo_env (demo_options\<lparr> language := ''fr'' \<rparr>) demo_files))
      + languages_failed (world_of (main demo_env (demo_options\<lparr> language := ''fr'' \<rparr>) demo_files))
      = languages_total (world_of (main demo_env (demo_options\<lparr> language := ''fr'' \<rparr>) demo_files))"
proof -
  let ?o = "demo_options\<lparr> language := ''fr'' \<rparr>"
  have fin: "main demo_env ?o demo_files = Finished (world_of (main demo_env ?o demo_files))"
    by (simp add: run_defs demo_defs file_defs stat_updates)
  have cfg: "readConfig demo_env (config ?o) = Inr demo_config"
    by (simp add: demo_defs)
  have hyp: "languagesToTranslate demo_config ?o = [''fr'']" "''fr'' \<in> set (languages demo_config)"
    "errors (validateNamespaces demo_config (namespace ?o)) = []"
    by (simp_all add: run_defs demo_defs)
  have tot: "namespaces_total (world_of (main demo_env ?o demo_files)) = 1"
    by (simp add: run_defs demo_defs file_defs stat_updates)
  from run_end_counters [OF fin cfg, of "''fr''"] hyp fin cfg tot
  show ?thesis by simp
qed

section \<open>Where the namespace counters leave their total\<close>

text \<open>
  Claim C3 at a failing input. The demo project has two target languages and one
  namespace, and the disk holds no source file. Each language walks the namespace once
  and counts it as failed in the same run-wide counter, whose total is the number of
  namespaces: the run resolves with namespaces total 1, completed 0 and failed 2, so
  \<open>completed + failed \<le> total\<close> does not hold for the namespaces group.
\<close>

theorem namespaces_exceed_total:
  "is_Finished (main demo_env demo_options Map.empty)
   \<and> languages_total (world_of (main demo_env demo_options Map.empty)) = 2
   \<and> namespaces_total (world_of (main demo_env demo_options Map.empty)) = 1
   \<and> namespaces_completed (world_of (main demo_env demo_options Map.empty)) = 0
   \<and> namespaces_failed (world_of (main demo_env demo_options Map.empty)) = 2"
  by (simp add: run_defs demo_defs file_defs stat_updates)

text \<open>
  Claim C2 at a failing input. The user asks for \<open>-l fr -n home,extra\<close>, where \<open>extra\<close> is
  not configured, and answers \<open>yes\<close>. Validation keeps \<open>home\<close> only and the namespaces total
  is 1, as the claim says; but \<open>run\<close> hands the requested list, not the validated one, to
  \<open>processLocale\<close>, which processes \<open>extra\<close> too. With no source file for \<open>extra\<close> the run
  resolves with one namespace completed and one failed. With a source file for \<open>extra\<close> on
  disk, \<open>locales/fr/extra.json\<close> is written (and the run then ends in the \<open>RangeError\<close> of the
  progress bar, two namespaces being completed out of a total of one).
\<close>

theorem invalid_namespace_is_processed:
  "promptUser demo_env = ''yes''
   \<and> valid (validateNamespaces demo_config (Some [''home'', ''extra''])) = [''home'']
   \<and> errors (validateNamespaces demo_config (Some [''home'', ''extra''])) = [''extra'']
   \<and> is_Finished (main demo_env
        (demo_options\<lparr> language := ''fr'', namespace := Some [''home'', ''extra''] \<rparr>) demo_files)
   \<and> namespaces_total (world_of (main demo_env
        (demo_options\<lparr> language := ''fr'', namespace := Some [''home'', ''extra''] \<rparr>) demo_files)) = 1
   \<and> namespaces_completed (world_of (main demo_env
        (demo_options\<lparr> language := ''fr'', namespace := Some [''home'', ''extra''] \<rparr>) demo_files)) = 1
   \<and> namespaces_failed (world_of (main demo_env
        (demo_options\<lparr> language := ''fr'', namespace := Some [''home'', ''extra''] \<rparr>) demo_files)) = 1
   \<and> files (world_of (main demo_env
        (demo_options\<lparr> language := ''fr'', namespace := Some [''home'', ''extra''] \<rparr>)
        (demo_files(''locales/en/extra.json'' \<mapsto> Json (JObj [(''more'', JStr ''More'')])))))
        ''locales/fr/extra.json''
       = Some (Json (JObj [(''greeting'', JStr ''Bonjour'')]))
   \<and> thrown (run demo_env
        (demo_options\<lparr> language := ''fr'', namespace := Some [''home'', ''extra''] \<rparr>)
        (Localiser (demo_files(''locales/en/extra.json'' \<mapsto> Json (JObj [(''more'', JStr ''More'')])))))
       = RangeError"
  by code_simp

section \<open>Which languages are counted as completed\<close>

text \<open>
  Claim C9 at a failing input. \<open>processLocale\<close> does report success exactly when the
  run-wide namespaces \<open>completed\<close> counter equals the namespaces total (lemma
  \<open>processLocale_counts\<close>), but a run in which every file succeeds does not go on to count
  every later language as failed. In the second demo project (two namespaces, target
  languages \<open>fr\<close> and \<open>de\<close>, every file succeeding) \<open>fr\<close> is counted as completed; in
  \<open>de\<close>, after the first file, three namespaces are completed out of a total of two, the
  progress bar asks for \<open>repeat(15 - 23)\<close> and the unhandled \<open>RangeError\<close> ends the process
  with status 1: \<open>de\<close> is counted neither as completed nor as failed. In the first demo
  project with a third target language \<open>it\<close> (one namespace), \<open>fr\<close> is counted as completed
  and \<open>de\<close> as failed, the bar then asks for \<open>repeat(15 - 30)\<close>, and \<open>it\<close> is never
  counted: one completed and one failed out of a total of three.
\<close>

theorem later_language_not_counted:
  "languages_total (world_of (main demo_env2 demo_options demo_files2)) = 2
   \<and> languages_completed (world_of (main demo_env2 demo_options demo_files2)) = 1
   \<and> languages_failed (world_of (main demo_env2 demo_options demo_files2)) = 0
   \<and> namespaces_total (world_of (main demo_env2 demo_options demo_files2)) = 2
   \<and> namespaces_completed (world_of (main demo_env2 demo_options demo_files2)) = 3
   \<and> namespaces_failed (world_of (main demo_env2 demo_options demo_files2)) = 0
   \<and> thrown (run demo_env2 demo_options (Localiser demo_files2)) = RangeError
   \<and> exit_code (main demo_env2 demo_options demo_files2) = 1
   \<and> languages_total (world_of (main
         (demo_env\<lparr> readConfig :=
            (\<lambda>p. Inr (demo_config\<lparr> languages := [''en'', ''fr'', ''de'', ''it''] \<rparr>)) \<rparr>)
         demo_options demo_files)) = 3
   \<and> languages_completed (world_of (main
         (demo_env\<lparr> readConfig :=
            (\<lambda>p. Inr (demo_config\<lparr> languages := [''en'', ''fr'', ''de'', ''it''] \<rparr>)) \<rparr>)
         demo_options demo_files)) = 1
   \<and> languages_failed (world_of (main
         (demo_env\<lparr> readConfig :=
            (\<lambda>p. Inr (demo_config\<lparr> languages := [''en'', ''fr'', ''de'', ''it''] \<rparr>)) \<rparr>)
         demo_options demo_files)) = 1
   \<and> namespaces_failed (world_of (main
         (demo_env\<lparr> readConfig :=
            (\<lambda>p. Inr (demo_config\<lparr> languages := [''en'', ''fr'', ''de'', ''it''] \<rparr>)) \<rparr>)
         demo_options demo_files)) = 0
   \<and> exit_code (main
         (demo_env\<lparr> readConfig :=
            (\<lambda>p. Inr (demo_config\<lparr> languages := [''en'', ''fr'', ''de'', ''it''] \<rparr>)) \<rparr>)
         demo_options demo_files) = 1"
  by code_simp

end
